theory Spec2Isabelle
  imports Main
begin

section \<open>Python values, exceptions and the operations the handlers use\<close>

text \<open>
  The handlers of \<^verbatim>\<open>app.py\<close> move JSON-like Python values between the media provider's
  SDK and \<^verbatim>\<open>jsonify\<close>. A Python \<^verbatim>\<open>str\<close> is a \<^typ>\<open>string\<close> holding its UTF-8 bytes, a
  \<^verbatim>\<open>dict\<close> with string keys is an association list read with \<^const>\<open>map_of\<close>, in the
  order of the dict display that builds it. The handlers never compute with a number, so a
  JSON number is carried as an integer.
\<close>

datatype pyval =
    PNone
  | PBool bool
  | PInt int
  | PStr string
  | PList "pyval list"
  | PDict "(string \<times> pyval) list"

type_synonym pydict = "(string \<times> pyval) list"

text \<open>
  Exceptions, all of them subclasses of Python's \<^verbatim>\<open>Exception\<close>.
  \<open>RequestEntityTooLarge\<close> is werkzeug's HTTP exception for status 413. \<open>Error m\<close> is any
  other exception (the provider SDK's own errors, network failures) whose \<^verbatim>\<open>str\<close> is \<open>m\<close>.
\<close>

datatype exn =
    KeyError string
  | TypeError string
  | IndexError string
  | AttributeError string
  | RequestEntityTooLarge
  | Error string

text \<open>
  \<^verbatim>\<open>repr(s)\<close> of a string: between double quotes when the string holds a single quote and
  no double quote, between single quotes otherwise; the enclosing quote and the backslash are
  escaped, as are tab, newline, carriage return and the other ASCII control characters
  (\<^verbatim>\<open>\xNN\<close>). Bytes of characters beyond ASCII are kept.
\<close>

definition hex_digit :: "nat \<Rightarrow> char" where
  "hex_digit n = ''0123456789abcdef'' ! (n mod 16)"

definition repr_char :: "char \<Rightarrow> char \<Rightarrow> string" where
  "repr_char quote c =
     (if c = quote \<or> c = CHR 0x5C then [CHR 0x5C, c]
      else if c = CHR 0x09 then [CHR 0x5C, CHR ''t'']
      else if c = CHR 0x0A then [CHR 0x5C, CHR ''n'']
      else if c = CHR 0x0D then [CHR 0x5C, CHR ''r'']
      else if (of_char c :: nat) < 32 \<or> (of_char c :: nat) = 127
      then [CHR 0x5C, CHR ''x'', hex_digit (of_char c div 16), hex_digit (of_char c mod 16)]
      else [c])"

definition py_repr :: "string \<Rightarrow> string" where
  "py_repr s =
     (let quote = (if CHR 0x27 \<in> set s \<and> CHR 0x22 \<notin> set s then CHR 0x22 else CHR 0x27)
      in [quote] @ concat (map (repr_char quote) s) @ [quote])"

text \<open>
  \<^verbatim>\<open>str(e)\<close>. A \<^verbatim>\<open>KeyError\<close> prints the repr of its key; an HTTP exception prints its
  code, name and description.
\<close>

fun str_exn :: "exn \<Rightarrow> string" where
  "str_exn (KeyError k) = py_repr k"
| "str_exn (TypeError m) = m"
| "str_exn (IndexError m) = m"
| "str_exn (AttributeError m) = m"
| "str_exn RequestEntityTooLarge =
     ''413 Request Entity Too Large: The data value transmitted exceeds the capacity limit.''"
| "str_exn (Error m) = m"

fun type_name :: "pyval \<Rightarrow> string" where
  "type_name PNone = ''NoneType''"
| "type_name (PBool _) = ''bool''"
| "type_name (PInt _) = ''int''"
| "type_name (PStr _) = ''str''"
| "type_name (PList _) = ''list''"
| "type_name (PDict _) = ''dict''"

text \<open>\<^verbatim>\<open>d[key]\<close> on a dict: the value, or \<^verbatim>\<open>KeyError(key)\<close>.\<close>

definition dict_getitem :: "pydict \<Rightarrow> string \<Rightarrow> exn + pyval" where
  "dict_getitem d k = (case map_of d k of None \<Rightarrow> Inl (KeyError k) | Some v \<Rightarrow> Inr v)"

text \<open>\<^verbatim>\<open>d.get(key, default)\<close> on a dict.\<close>

definition dict_get :: "pydict \<Rightarrow> string \<Rightarrow> pyval \<Rightarrow> pyval" where
  "dict_get d k dflt = (case map_of d k of None \<Rightarrow> dflt | Some v \<Rightarrow> v)"

text \<open>
  \<^verbatim>\<open>v[key]\<close> with a string key on any value: only a dict can be subscripted by a
  string, every other type raises \<^verbatim>\<open>TypeError\<close> (message texts of CPython 3.11).
\<close>

fun getitem :: "pyval \<Rightarrow> string \<Rightarrow> exn + pyval" where
  "getitem (PDict d) k = dict_getitem d k"
| "getitem (PStr s) k =
     Inl (TypeError (''string indices must be integers, not '' @ [CHR 0x27] @ ''str'' @ [CHR 0x27]))"
| "getitem (PList xs) k = Inl (TypeError ''list indices must be integers or slices, not str'')"
| "getitem v k =
     Inl (TypeError ([CHR 0x27] @ type_name v @ [CHR 0x27] @ '' object is not subscriptable''))"

text \<open>
  \<^verbatim>\<open>v.get(key, default)\<close> on any value; it is reached only after \<^verbatim>\<open>v[key]\<close> has
  succeeded, that is on a dict, and raises (\<^verbatim>\<open>AttributeError\<close>) on everything else.
\<close>

fun get_method :: "pyval \<Rightarrow> string \<Rightarrow> pyval \<Rightarrow> exn + pyval" where
  "get_method (PDict d) k dflt = Inr (dict_get d k dflt)"
| "get_method v k dflt =
     Inl (AttributeError ([CHR 0x27] @ type_name v @ [CHR 0x27] @ '' object has no attribute ''
            @ [CHR 0x27] @ ''get'' @ [CHR 0x27]))"

text \<open>
  \<^verbatim>\<open>for res in v\<close>: the elements of a list, the keys of a dict, the characters of a
  string; \<^verbatim>\<open>TypeError\<close> on a value that is not iterable.
\<close>

fun iterate :: "pyval \<Rightarrow> exn + pyval list" where
  "iterate (PList xs) = Inr xs"
| "iterate (PDict d) = Inr (map (\<lambda>kv. PStr (fst kv)) d)"
| "iterate (PStr s) = Inr (map (\<lambda>c. PStr [c]) s)"
| "iterate v =
     Inl (TypeError ([CHR 0x27] @ type_name v @ [CHR 0x27] @ '' object is not iterable''))"

section \<open>File-extension validation\<close>

text \<open>\<^verbatim>\<open>ALLOWED_EXTENSIONS = {'png', 'jpg', 'jpeg', 'gif', 'webp'}\<close>\<close>

definition ALLOWED_EXTENSIONS :: "string set" where
  "ALLOWED_EXTENSIONS = {''png'', ''jpg'', ''jpeg'', ''gif'', ''webp''}"

text \<open>
  \<^verbatim>\<open>str.lower()\<close>: the letters A to Z go to a to z. On the UTF-8 bytes of a character
  beyond ASCII it is the identity, which agrees with Python wherever the result is compared
  with the allowed extensions: no character beyond ASCII lowercases to a letter occurring in
  them.
\<close>

definition lower_char :: "char \<Rightarrow> char" where
  "lower_char c =
     (case map_of (zip ''ABCDEFGHIJKLMNOPQRSTUVWXYZ'' ''abcdefghijklmnopqrstuvwxyz'') c of
        None \<Rightarrow> c
      | Some l \<Rightarrow> l)"

definition lower :: "string \<Rightarrow> string" where
  "lower s = map lower_char s"

text \<open>
  \<^verbatim>\<open>s.rsplit(sep, 1)\<close> for a one-character separator: the whole string when the
  separator does not occur, else the text before its last occurrence and the text after it.
\<close>

definition rsplit1 :: "char \<Rightarrow> string \<Rightarrow> string list" where
  "rsplit1 sep s =
     (if sep \<in> set s
      then [rev (drop 1 (dropWhile (\<lambda>c. c \<noteq> sep) (rev s))),
            rev (takeWhile (\<lambda>c. c \<noteq> sep) (rev s))]
      else [s])"

text \<open>\<^verbatim>\<open>xs[1]\<close>, with Python's \<^verbatim>\<open>IndexError\<close> on a list of fewer than two elements.\<close>

definition index1 :: "'a list \<Rightarrow> exn + 'a" where
  "index1 xs = (if 1 < length xs then Inr (xs ! 1) else Inl (IndexError ''list index out of range''))"

text \<open>
  \<^verbatim>\<open>return '.' in filename and filename.rsplit('.', 1)[1].lower() in ALLOWED_EXTENSIONS\<close>;
  \<^verbatim>\<open>and\<close> evaluates its right operand only when the left one holds.
\<close>

definition allowed_file :: "string \<Rightarrow> exn + bool" where
  "allowed_file filename =
     (if CHR ''.'' \<in> set filename
      then (case index1 (rsplit1 CHR ''.'' filename) of
              Inl e \<Rightarrow> Inl e
            | Inr ext \<Rightarrow> Inr (lower ext \<in> ALLOWED_EXTENSIONS))
      else Inr False)"

section \<open>Requests, the provider and what a handler does\<close>

text \<open>
  An uploaded file (werkzeug's \<^verbatim>\<open>FileStorage\<close>): the filename the client sent and the
  bytes of the stream. A request carries the length of its body (\<^verbatim>\<open>request.content_length\<close>)
  and the files its multipart body holds, by form field.
\<close>

record file_storage =
  filename :: string
  stream :: string

record request =
  content_length :: nat
  body_files :: "string \<rightharpoonup> file_storage"

text \<open>\<^verbatim>\<open>app.config['MAX_CONTENT_LENGTH'] = 16 * 1024 * 1024\<close>\<close>

definition MAX_CONTENT_LENGTH :: nat where
  "MAX_CONTENT_LENGTH = 16 * 1024 * 1024"

text \<open>
  \<^verbatim>\<open>request.files\<close>. The framework parses the form on the first access to it, which is
  inside the handler, and raises there when the body is longer than the configured limit.
\<close>

definition files :: "request \<Rightarrow> exn + (string \<rightharpoonup> file_storage)" where
  "files req =
     (if MAX_CONTENT_LENGTH < content_length req then Inl RequestEntityTooLarge
      else Inr (body_files req))"

text \<open>
  The arguments of the three calls into the provider's SDK (\<open>file_arg\<close> is the positional
  argument of the upload; \<open>type_arg\<close> and \<open>context_arg\<close> are the keywords \<^verbatim>\<open>type\<close> and
  \<^verbatim>\<open>context\<close>). \<^verbatim>\<open>transformation\<close> is a list of dicts from option name to option value.
\<close>

record upload_kwargs =
  file_arg :: file_storage
  folder :: string
  resource_type :: string
  transformation :: "(string \<times> string) list list"

record resources_kwargs =
  type_arg :: string
  prefix :: string
  max_results :: int
  context_arg :: bool

datatype provider_call =
    UploaderUpload upload_kwargs
  | ApiResources resources_kwargs
  | UploaderDestroy string

text \<open>
  The provider is outside the program: each SDK function either raises an exception or
  returns the dict parsed from the provider's JSON answer. A handler calls the provider at
  most once, so a function from the arguments to the outcome describes it.
\<close>

record provider =
  uploader_upload :: "upload_kwargs \<Rightarrow> exn + pydict"
  api_resources :: "resources_kwargs \<Rightarrow> exn + pydict"
  uploader_destroy :: "string \<Rightarrow> exn + pydict"

text \<open>
  What a handler does besides answering: provider calls and log lines, in order. An
  f-string log line is kept as its literal text and the value interpolated after it.
\<close>

datatype event =
    Call provider_call
  | LogInfo string pyval
  | LogError string

fun provider_calls :: "event list \<Rightarrow> provider_call list" where
  "provider_calls [] = []"
| "provider_calls (Call c # es) = c # provider_calls es"
| "provider_calls (_ # es) = provider_calls es"

text \<open>A response: the value given to \<^verbatim>\<open>jsonify\<close> and the HTTP status (200 when none is given).\<close>

type_synonym response = "pyval \<times> nat"

definition error_body :: "string \<Rightarrow> pyval" where
  "error_body msg = PDict [(''error'', PStr msg)]"

section \<open>The upload handler\<close>

text \<open>
  The dict display given to \<^verbatim>\<open>jsonify\<close> on success; its subscripts are evaluated in order
  and the first missing key raises.
\<close>

definition upload_success :: "pydict \<Rightarrow> exn + response" where
  "upload_success result =
     (case dict_getitem result ''secure_url'' of
        Inl e \<Rightarrow> Inl e
      | Inr url \<Rightarrow>
         (case dict_getitem result ''public_id'' of
            Inl e \<Rightarrow> Inl e
          | Inr public_id \<Rightarrow>
             (case dict_getitem result ''created_at'' of
                Inl e \<Rightarrow> Inl e
              | Inr created_at \<Rightarrow>
                  Inr (PDict [(''success'', PBool True), (''url'', url),
                              (''public_id'', public_id), (''created_at'', created_at)], 200))))"

text \<open>The keyword arguments of \<^verbatim>\<open>cloudinary.uploader.upload(file, ...)\<close>.\<close>

definition upload_call :: "file_storage \<Rightarrow> upload_kwargs" where
  "upload_call f =
     \<lparr>file_arg = f, folder = ''capturas'', resource_type = ''auto'',
      transformation = [[(''quality'', ''auto:good'')], [(''fetch_format'', ''auto'')]]\<rparr>"

text \<open>
  The body of the \<^verbatim>\<open>try\<close> block: a response or the exception raised, with the events so
  far. Its first step reads \<^verbatim>\<open>request.files\<close>, which may raise.
\<close>

definition upload_try :: "provider \<Rightarrow> request \<Rightarrow> (exn + response) \<times> event list" where
  "upload_try P req =
     (case files req of
        Inl e \<Rightarrow> (Inl e, [])
      | Inr request_files \<Rightarrow>
         (case request_files ''file'' of
            None \<Rightarrow>
              (Inr (error_body (''No se encontr'' @ [CHR 0xC3, CHR 0xB3] @ '' el archivo''), 400), [])
          | Some f \<Rightarrow>
              if filename f = []
              then (Inr (error_body (''Nombre de archivo vac'' @ [CHR 0xC3, CHR 0xAD] @ ''o''), 400), [])
              else
                (case allowed_file (filename f) of
                   Inl e \<Rightarrow> (Inl e, [])
                 | Inr ok \<Rightarrow>
                     if \<not> ok
                     then (Inr (error_body ''Tipo de archivo no permitido'', 400), [])
                     else
                       (case uploader_upload P (upload_call f) of
                          Inl e \<Rightarrow> (Inl e, [Call (UploaderUpload (upload_call f))])
                        | Inr result \<Rightarrow>
                           (case dict_getitem result ''public_id'' of
                              Inl e \<Rightarrow> (Inl e, [Call (UploaderUpload (upload_call f))])
                            | Inr logged \<Rightarrow>
                                (upload_success result,
                                 [Call (UploaderUpload (upload_call f)),
                                  LogInfo ''Imagen subida exitosamente: '' logged]))))))"

text \<open>\<^verbatim>\<open>except Exception as e\<close>: log the message and answer 500 with it.\<close>

definition upload :: "provider \<Rightarrow> request \<Rightarrow> response \<times> event list" where
  "upload P req =
     (case upload_try P req of
        (Inr resp, evs) \<Rightarrow> (resp, evs)
      | (Inl e, evs) \<Rightarrow>
          ((error_body (str_exn e), 500),
           evs @ [LogError (''Error al subir imagen: '' @ str_exn e)]))"

section \<open>The list handler\<close>

text \<open>The dict display of the comprehension, for one resource.\<close>

definition image_summary :: "pyval \<Rightarrow> exn + pyval" where
  "image_summary res =
     (case getitem res ''secure_url'' of
        Inl e \<Rightarrow> Inl e
      | Inr url \<Rightarrow>
         (case getitem res ''public_id'' of
            Inl e \<Rightarrow> Inl e
          | Inr public_id \<Rightarrow>
             (case get_method res ''created_at'' (PStr []) of
                Inl e \<Rightarrow> Inl e
              | Inr created_at \<Rightarrow>
                 (case get_method res ''format'' (PStr []) of
                    Inl e \<Rightarrow> Inl e
                  | Inr fmt \<Rightarrow>
                      Inr (PDict [(''url'', url), (''public_id'', public_id),
                                  (''created_at'', created_at), (''format'', fmt)])))))"

text \<open>The list comprehension: one summary per element, abandoned at the first exception.\<close>

fun image_summaries :: "pyval list \<Rightarrow> exn + pyval list" where
  "image_summaries [] = Inr []"
| "image_summaries (res # rest) =
     (case image_summary res of
        Inl e \<Rightarrow> Inl e
      | Inr img \<Rightarrow>
         (case image_summaries rest of
            Inl e \<Rightarrow> Inl e
          | Inr imgs \<Rightarrow> Inr (img # imgs)))"

definition resources_call :: resources_kwargs where
  "resources_call = \<lparr>type_arg = ''upload'', prefix = ''capturas'', max_results = 100, context_arg = True\<rparr>"

definition list_images_try :: "provider \<Rightarrow> (exn + response) \<times> event list" where
  "list_images_try P =
     (case api_resources P resources_call of
        Inl e \<Rightarrow> (Inl e, [Call (ApiResources resources_call)])
      | Inr resources \<Rightarrow>
         (case dict_getitem resources ''resources'' of
            Inl e \<Rightarrow> (Inl e, [Call (ApiResources resources_call)])
          | Inr rs \<Rightarrow>
             (case iterate rs of
                Inl e \<Rightarrow> (Inl e, [Call (ApiResources resources_call)])
              | Inr elems \<Rightarrow>
                 (case image_summaries elems of
                    Inl e \<Rightarrow> (Inl e, [Call (ApiResources resources_call)])
                  | Inr images \<Rightarrow>
                      (Inr (PDict [(''success'', PBool True), (''images'', PList images),
                                   (''total'', PInt (int (length images)))], 200),
                       [Call (ApiResources resources_call)])))))"

definition list_images :: "provider \<Rightarrow> response \<times> event list" where
  "list_images P =
     (case list_images_try P of
        (Inr resp, evs) \<Rightarrow> (resp, evs)
      | (Inl e, evs) \<Rightarrow>
          ((error_body (str_exn e), 500),
           evs @ [LogError (''Error al listar im'' @ [CHR 0xC3, CHR 0xA1] @ ''genes: '' @ str_exn e)]))"

section \<open>The delete handler\<close>

text \<open>\<^verbatim>\<open>result.get("result") == "ok"\<close>: a missing key reads as \<^verbatim>\<open>None\<close>.\<close>

definition delete_image_try :: "provider \<Rightarrow> string \<Rightarrow> (exn + response) \<times> event list" where
  "delete_image_try P public_id =
     (case uploader_destroy P public_id of
        Inl e \<Rightarrow> (Inl e, [Call (UploaderDestroy public_id)])
      | Inr result \<Rightarrow>
          if dict_get result ''result'' PNone = PStr ''ok''
          then (Inr (PDict [(''success'', PBool True), (''message'', PStr ''Imagen eliminada'')], 200),
                [Call (UploaderDestroy public_id), LogInfo ''Imagen eliminada: '' (PStr public_id)])
          else (Inr (error_body ''No se pudo eliminar la imagen'', 400),
                [Call (UploaderDestroy public_id)]))"

definition delete_image :: "provider \<Rightarrow> string \<Rightarrow> response \<times> event list" where
  "delete_image P public_id =
     (case delete_image_try P public_id of
        (Inr resp, evs) \<Rightarrow> (resp, evs)
      | (Inl e, evs) \<Rightarrow>
          ((error_body (str_exn e), 500),
           evs @ [LogError (''Error al eliminar imagen: '' @ str_exn e)]))"

section \<open>The error handlers\<close>

definition request_entity_too_large :: response where
  "request_entity_too_large =
     (error_body (''El archivo es demasiado grande. M'' @ [CHR 0xC3, CHR 0xA1] @ ''ximo 16MB''), 413)"

definition not_found :: response where
  "not_found = (error_body ''Ruta no encontrada'', 404)"

definition internal_error :: response where
  "internal_error = (error_body ''Error interno del servidor'', 500)"

section \<open>Example requests and providers\<close>

text \<open>A request of 1 KiB uploading one file under the field \<^verbatim>\<open>file\<close>.\<close>

definition example_request :: "string \<Rightarrow> request" where
  "example_request name =
     \<lparr>content_length = 1024,
      body_files = [''file'' \<mapsto> \<lparr>filename = name, stream = ''bytes''\<rparr>]\<rparr>"

text \<open>The same upload in a body one byte longer than the limit.\<close>

definition oversized_request :: "string \<Rightarrow> request" where
  "oversized_request name =
     \<lparr>content_length = 16777217,
      body_files = [''file'' \<mapsto> \<lparr>filename = name, stream = ''bytes''\<rparr>]\<rparr>"

text \<open>
  A provider whose calls return: the second listed resource has neither \<^verbatim>\<open>created_at\<close>
  nor \<^verbatim>\<open>format\<close>, and only \<^verbatim>\<open>capturas/abc\<close> can be deleted.
\<close>

definition good_provider :: provider where
  "good_provider =
     \<lparr>uploader_upload = (\<lambda>kw. Inr [(''public_id'', PStr ''capturas/abc''),
                                     (''secure_url'', PStr ''https://res.example/capturas/abc.jpg''),
                                     (''created_at'', PStr ''2024-05-01T10:00:00Z''),
                                     (''bytes'', PInt 5)]),
      api_resources = (\<lambda>kw. Inr [(''resources'',
          PList [PDict [(''public_id'', PStr ''capturas/abc''),
                        (''secure_url'', PStr ''https://res.example/capturas/abc.jpg''),
                        (''created_at'', PStr ''2024-05-01T10:00:00Z''),
                        (''format'', PStr ''jpg'')],
                 PDict [(''public_id'', PStr ''capturas/def''),
                        (''secure_url'', PStr ''https://res.example/capturas/def.png'')]])]),
      uploader_destroy = (\<lambda>public_id.
          if public_id = ''capturas/abc'' then Inr [(''result'', PStr ''ok'')]
          else Inr [(''result'', PStr ''not found'')])\<rparr>"

text \<open>
  A provider whose upload and destroy calls raise, and whose listing holds a resource
  without \<^verbatim>\<open>secure_url\<close>.
\<close>

definition failing_provider :: provider where
  "failing_provider =
     \<lparr>uploader_upload = (\<lambda>kw. Inl (Error ''Invalid api_key'')),
      api_resources = (\<lambda>kw. Inr [(''resources'',
          PList [PDict [(''public_id'', PStr ''capturas/abc''),
                        (''secure_url'', PStr ''https://res.example/capturas/abc.jpg'')],
                 PDict [(''public_id'', PStr ''capturas/def'')]])]),
      uploader_destroy = (\<lambda>public_id. Inl (Error ''Connection refused''))\<rparr>"

section \<open>Properties of the validation\<close>

lemma rsplit1_last_dot:
  assumes "sep \<notin> set ext"
  shows "rsplit1 sep (pre @ sep # ext) = [pre, ext]"
proof -
  have tw: "takeWhile (\<lambda>c. c \<noteq> sep) (rev ext @ sep # rev pre) = rev ext"
    using assms by (subst takeWhile_append2) auto
  have dw: "dropWhile (\<lambda>c. c \<noteq> sep) (rev ext @ sep # rev pre) = sep # rev pre"
    using assms by (subst dropWhile_append2) auto
  show ?thesis
    by (simp add: rsplit1_def tw dw)
qed

lemma allowed_file_last_dot:
  assumes "CHR ''.'' \<notin> set ext"
  shows "allowed_file (pre @ CHR ''.'' # ext) = Inr (lower ext \<in> ALLOWED_EXTENSIONS)"
  by (simp add: allowed_file_def rsplit1_last_dot [OF assms] index1_def)

lemma allowed_file_no_dot:
  "CHR ''.'' \<notin> set name \<Longrightarrow> allowed_file name = Inr False"
  by (simp add: allowed_file_def)

text \<open>The \<^verbatim>\<open>IndexError\<close> of \<^verbatim>\<open>[1]\<close> is unreachable: validation always returns a boolean.\<close>

lemma allowed_file_total: "\<exists>b. allowed_file name = Inr b"
  by (auto simp add: allowed_file_def rsplit1_def index1_def)

text \<open>
  Every filename with a dot splits at its last dot, so the statements below about
  \<open>pre @ CHR ''.'' # ext\<close> with no dot in \<open>ext\<close> cover all filenames that contain one.
\<close>

lemma last_dot_decomposition:
  assumes "CHR ''.'' \<in> set name"
  shows "\<exists>pre ext. name = pre @ CHR ''.'' # ext \<and> CHR ''.'' \<notin> set ext"
  using split_list_last [OF assms] by blast

text \<open>
  Claim C9. For a filename containing a dot, validation depends only on the text after the
  last dot: two filenames with the same last extension get the same verdict, which is
  whether that extension, lowercased, is allowed. \<^verbatim>\<open>archive.tar.png\<close> is accepted and
  \<^verbatim>\<open>photo.png.exe\<close> is rejected.
\<close>

theorem allowed_file_last_extension_only:
  assumes "CHR ''.'' \<notin> set ext"
  shows "allowed_file (pre @ CHR ''.'' # ext) = allowed_file (pre' @ CHR ''.'' # ext)
       \<and> allowed_file (pre @ CHR ''.'' # ext) = Inr (lower ext \<in> ALLOWED_EXTENSIONS)
       \<and> allowed_file ''archive.tar.png'' = Inr True
       \<and> allowed_file ''photo.png.exe'' = Inr False"
proof -
  have a: "allowed_file ''archive.tar.png'' = Inr True"
    using allowed_file_last_dot [of "''png''" "''archive.tar''"]
    by (simp add: lower_def lower_char_def ALLOWED_EXTENSIONS_def)
  have b: "allowed_file ''photo.png.exe'' = Inr False"
    using allowed_file_last_dot [of "''exe''" "''photo.png''"]
    by (simp add: lower_def lower_char_def ALLOWED_EXTENSIONS_def)
  show ?thesis
    by (simp only: allowed_file_last_dot [OF assms] a b simp_thms)
qed

theorem allowed_file_last_extension_only_witness:
  "CHR ''.'' \<notin> set ''PNG''
   \<and> allowed_file ''archive.tar.PNG'' = allowed_file ''x.PNG''
   \<and> allowed_file ''archive.tar.PNG'' = Inr True"
proof -
  have h: "CHR ''.'' \<notin> set ''PNG''"
    by simp
  have l: "lower ''PNG'' \<in> ALLOWED_EXTENSIONS"
    by (simp add: lower_def lower_char_def ALLOWED_EXTENSIONS_def)
  from allowed_file_last_extension_only [OF h, of "''archive.tar''" "''x''"] h l
  show ?thesis
    by auto
qed

section \<open>Properties of the upload handler\<close>

text \<open>Reading \<^verbatim>\<open>request.files\<close> succeeds exactly when the body is within the limit.\<close>

lemma files_within_limit:
  "content_length req \<le> MAX_CONTENT_LENGTH \<Longrightarrow> files req = Inr (body_files req)"
  by (simp add: files_def)

lemma files_over_limit:
  "MAX_CONTENT_LENGTH < content_length req \<Longrightarrow> files req = Inl RequestEntityTooLarge"
  by (simp add: files_def)

text \<open>
  A body over the limit makes the first line of the \<^verbatim>\<open>try\<close> block raise; the handler's own
  \<^verbatim>\<open>except\<close> answers it, with status 500 and without calling the provider.
\<close>

lemma upload_over_limit:
  assumes "MAX_CONTENT_LENGTH < content_length req"
  shows "upload P req =
           ((error_body (str_exn RequestEntityTooLarge), 500),
            [LogError (''Error al subir imagen: '' @ str_exn RequestEntityTooLarge)])"
  by (simp add: upload_def upload_try_def files_over_limit [OF assms])

text \<open>With a file whose last extension is allowed, the handler reaches the provider call.\<close>

lemma upload_try_valid:
  assumes "files req = Inr fs"
    and "fs ''file'' = Some f"
    and "filename f = pre @ CHR ''.'' # ext"
    and "CHR ''.'' \<notin> set ext"
    and "lower ext \<in> ALLOWED_EXTENSIONS"
  shows "upload_try P req =
     (case uploader_upload P (upload_call f) of
        Inl e \<Rightarrow> (Inl e, [Call (UploaderUpload (upload_call f))])
      | Inr result \<Rightarrow>
         (case dict_getitem result ''public_id'' of
            Inl e \<Rightarrow> (Inl e, [Call (UploaderUpload (upload_call f))])
          | Inr logged \<Rightarrow>
              (upload_success result,
               [Call (UploaderUpload (upload_call f)),
                LogInfo ''Imagen subida exitosamente: '' logged])))"
proof -
  have "allowed_file (filename f) = Inr True"
    using allowed_file_last_dot [OF assms(4), of pre] assms(3,5) by simp
  moreover have "filename f \<noteq> []"
    using assms(3) by simp
  ultimately show ?thesis
    using assms(1,2) by (simp add: upload_try_def)
qed

text \<open>The two example requests, as the handler reads them.\<close>

lemma files_example_request:
  "files (example_request name) = Inr [''file'' \<mapsto> \<lparr>filename = name, stream = ''bytes''\<rparr>]"
  by (simp add: files_def example_request_def MAX_CONTENT_LENGTH_def)

lemma oversized_request_over_limit:
  "MAX_CONTENT_LENGTH < content_length (oversized_request name)"
  by (simp add: oversized_request_def MAX_CONTENT_LENGTH_def)

text \<open>
  Claim C1, as stated, fails: an upload of \<^verbatim>\<open>document.pdf\<close> in a body one byte over the
  limit is not answered with 400.
\<close>

theorem upload_invalid_file_oversized_counterexample:
  "\<not> (\<exists>msg. fst (upload good_provider (oversized_request ''document.pdf''))
              = (PDict [(''error'', PStr msg)], 400)
           \<and> provider_calls (snd (upload good_provider (oversized_request ''document.pdf''))) = [])"
  by (simp add: upload_over_limit [OF oversized_request_over_limit])

text \<open>
  Claim C1, amended. When the body of the request is within the 16 MiB limit and the request
  has no \<^verbatim>\<open>file\<close> field, or the file's name is empty, or has no dot, or the text after its
  last dot, lowercased, is not an allowed extension, the upload handler answers 400 with a
  body holding only an \<^verbatim>\<open>error\<close> string, and calls the provider not at all, whatever the
  provider is.
\<close>

theorem upload_invalid_file_400_no_provider_call:
  assumes "content_length req \<le> MAX_CONTENT_LENGTH"
    and "body_files req ''file'' = None
         \<or> (\<exists>f. body_files req ''file'' = Some f \<and>
               (filename f = [] \<or> CHR ''.'' \<notin> set (filename f)
                \<or> (\<exists>pre ext. filename f = pre @ CHR ''.'' # ext \<and> CHR ''.'' \<notin> set ext
                       \<and> lower ext \<notin> ALLOWED_EXTENSIONS)))"
  shows "\<exists>msg. fst (upload P req) = (PDict [(''error'', PStr msg)], 400)
           \<and> provider_calls (snd (upload P req)) = []"
  using assms(2)
  by (auto simp add: upload_def upload_try_def files_within_limit [OF assms(1)] error_body_def
        allowed_file_no_dot allowed_file_last_dot)

theorem upload_invalid_file_400_no_provider_call_witness:
  "(\<exists>msg. fst (upload good_provider (example_request ''document.pdf''))
            = (PDict [(''error'', PStr msg)], 400)
         \<and> provider_calls (snd (upload good_provider (example_request ''document.pdf''))) = [])
   \<and> (\<exists>msg. fst (upload good_provider (example_request ''README''))
            = (PDict [(''error'', PStr msg)], 400)
         \<and> provider_calls (snd (upload good_provider (example_request ''README''))) = [])
   \<and> (\<exists>msg. fst (upload good_provider (example_request []))
            = (PDict [(''error'', PStr msg)], 400)
         \<and> provider_calls (snd (upload good_provider (example_request []))) = [])
   \<and> (\<exists>msg. fst (upload good_provider \<lparr>content_length = 0, body_files = Map.empty\<rparr>)
            = (PDict [(''error'', PStr msg)], 400)
         \<and> provider_calls
              (snd (upload good_provider \<lparr>content_length = 0, body_files = Map.empty\<rparr>)) = [])"
proof -
  have small: "content_length (example_request name) \<le> MAX_CONTENT_LENGTH" for name
    by (simp add: example_request_def MAX_CONTENT_LENGTH_def)
  have none: "content_length \<lparr>content_length = 0, body_files = Map.empty\<rparr> \<le> MAX_CONTENT_LENGTH"
    by simp
  have "\<exists>pre ext. ''document.pdf'' = pre @ CHR ''.'' # ext \<and> CHR ''.'' \<notin> set ext
           \<and> lower ext \<notin> ALLOWED_EXTENSIONS"
    by (intro exI [of _ "''document''"] exI [of _ "''pdf''"])
       (simp add: lower_def lower_char_def ALLOWED_EXTENSIONS_def)
  then have pdf: "\<exists>f. body_files (example_request ''document.pdf'') ''file'' = Some f \<and>
             (filename f = [] \<or> CHR ''.'' \<notin> set (filename f)
              \<or> (\<exists>pre ext. filename f = pre @ CHR ''.'' # ext \<and> CHR ''.'' \<notin> set ext
                     \<and> lower ext \<notin> ALLOWED_EXTENSIONS))"
    by (intro exI [of _ "\<lparr>filename = ''document.pdf'', stream = ''bytes''\<rparr>"])
       (simp add: example_request_def)
  have nodot: "\<exists>f. body_files (example_request ''README'') ''file'' = Some f \<and>
             (filename f = [] \<or> CHR ''.'' \<notin> set (filename f)
              \<or> (\<exists>pre ext. filename f = pre @ CHR ''.'' # ext \<and> CHR ''.'' \<notin> set ext
                     \<and> lower ext \<notin> ALLOWED_EXTENSIONS))"
    by (intro exI [of _ "\<lparr>filename = ''README'', stream = ''bytes''\<rparr>"])
       (simp add: example_request_def)
  have empty: "\<exists>f. body_files (example_request []) ''file'' = Some f \<and>
             (filename f = [] \<or> CHR ''.'' \<notin> set (filename f)
              \<or> (\<exists>pre ext. filename f = pre @ CHR ''.'' # ext \<and> CHR ''.'' \<notin> set ext
                     \<and> lower ext \<notin> ALLOWED_EXTENSIONS))"
    by (intro exI [of _ "\<lparr>filename = [], stream = ''bytes''\<rparr>"])
       (simp add: example_request_def)
  have absent: "body_files \<lparr>content_length = 0, body_files = Map.empty\<rparr> ''file'' = None"
    by simp
  note rejected = upload_invalid_file_400_no_provider_call [of _ good_provider]
  show ?thesis
    by (intro conjI rejected [OF small disjI2 [OF pdf]] rejected [OF small disjI2 [OF nodot]]
          rejected [OF small disjI2 [OF empty]] rejected [OF none disjI1 [OF absent]])
qed

text \<open>
  Claim C2, as stated, fails: an upload of \<^verbatim>\<open>photo.JPG\<close>, whose extension is allowed, in a
  body one byte over the limit reaches no provider call.
\<close>

theorem upload_valid_file_oversized_counterexample:
  "allowed_file (filename \<lparr>filename = ''photo.JPG'', stream = ''bytes''\<rparr>) = Inr True
   \<and> body_files (oversized_request ''photo.JPG'') ''file''
       = Some \<lparr>filename = ''photo.JPG'', stream = ''bytes''\<rparr>
   \<and> provider_calls (snd (upload good_provider (oversized_request ''photo.JPG''))) = []"
proof -
  have a: "allowed_file (filename \<lparr>filename = ''photo.JPG'', stream = ''bytes''\<rparr>) = Inr True"
    using allowed_file_last_dot [of "''JPG''" "''photo''"]
    by (simp add: lower_def lower_char_def ALLOWED_EXTENSIONS_def)
  have b: "body_files (oversized_request ''photo.JPG'') ''file''
             = Some \<lparr>filename = ''photo.JPG'', stream = ''bytes''\<rparr>"
    by (simp add: oversized_request_def)
  have c: "provider_calls (snd (upload good_provider (oversized_request ''photo.JPG''))) = []"
    by (simp add: upload_over_limit [OF oversized_request_over_limit])
  from a b c show ?thesis
    by (intro conjI)
qed

text \<open>
  Claim C2, amended. When the body of the request is within the 16 MiB limit and the uploaded
  file's last extension, lowercased, is allowed (so \<^verbatim>\<open>photo.JPG\<close> passes), the upload
  handler calls the provider exactly once: an upload of that file with folder
  \<^verbatim>\<open>capturas\<close>, resource type \<^verbatim>\<open>auto\<close> and the two transformations automatic quality and
  automatic format.
\<close>

theorem upload_valid_file_calls_provider_once:
  assumes "content_length req \<le> MAX_CONTENT_LENGTH"
    and "body_files req ''file'' = Some f"
    and "filename f = pre @ CHR ''.'' # ext"
    and "CHR ''.'' \<notin> set ext"
    and "lower ext \<in> ALLOWED_EXTENSIONS"
  shows "provider_calls (snd (upload P req)) =
           [UploaderUpload \<lparr>file_arg = f, folder = ''capturas'', resource_type = ''auto'',
              transformation = [[(''quality'', ''auto:good'')], [(''fetch_format'', ''auto'')]]\<rparr>]"
  unfolding upload_def upload_try_valid [OF files_within_limit [OF assms(1)] assms(2-5)]
  by (simp add: upload_call_def upload_success_def split: sum.split prod.split)

theorem upload_valid_file_calls_provider_once_witness:
  "provider_calls (snd (upload good_provider (example_request ''photo.JPG''))) =
     [UploaderUpload \<lparr>file_arg = \<lparr>filename = ''photo.JPG'', stream = ''bytes''\<rparr>,
        folder = ''capturas'', resource_type = ''auto'',
        transformation = [[(''quality'', ''auto:good'')], [(''fetch_format'', ''auto'')]]\<rparr>]"
proof -
  have c: "content_length (example_request ''photo.JPG'') \<le> MAX_CONTENT_LENGTH"
    by (simp add: example_request_def MAX_CONTENT_LENGTH_def)
  have f: "body_files (example_request ''photo.JPG'') ''file''
             = Some \<lparr>filename = ''photo.JPG'', stream = ''bytes''\<rparr>"
    by (simp add: example_request_def)
  have n: "filename \<lparr>filename = ''photo.JPG'', stream = ''bytes''\<rparr> = ''photo'' @ CHR ''.'' # ''JPG''"
    by simp
  have d: "CHR ''.'' \<notin> set ''JPG''"
    by simp
  have l: "lower ''JPG'' \<in> ALLOWED_EXTENSIONS"
    by (simp add: lower_def lower_char_def ALLOWED_EXTENSIONS_def)
  show ?thesis
    by (rule upload_valid_file_calls_provider_once [OF c f n d l])
qed

text \<open>
  Claim C3. On a valid upload for which the provider's upload call returns a response
  with the fields \<^verbatim>\<open>secure_url\<close>, \<^verbatim>\<open>public_id\<close> and \<^verbatim>\<open>created_at\<close>, the handler answers 200
  with \<^verbatim>\<open>success\<close> true and \<^verbatim>\<open>url\<close>, \<^verbatim>\<open>public_id\<close>, \<^verbatim>\<open>created_at\<close> equal to those three
  fields, unchanged. The provider is called with the file that \<^verbatim>\<open>request.files\<close> holds
  under \<^verbatim>\<open>file\<close>.
\<close>

theorem upload_success_response_verbatim:
  assumes "files req = Inr fs"
    and "fs ''file'' = Some f"
    and "filename f = pre @ CHR ''.'' # ext"
    and "CHR ''.'' \<notin> set ext"
    and "lower ext \<in> ALLOWED_EXTENSIONS"
    and "uploader_upload P (upload_call f) = Inr result"
    and "map_of result ''secure_url'' = Some secure_url"
    and "map_of result ''public_id'' = Some public_id"
    and "map_of result ''created_at'' = Some created_at"
  shows "fst (upload P req) =
           (PDict [(''success'', PBool True), (''url'', secure_url),
                   (''public_id'', public_id), (''created_at'', created_at)], 200)"
  unfolding upload_def upload_try_valid [OF assms(1-5)]
  using assms(6-9) by (simp add: upload_success_def dict_getitem_def)

theorem upload_success_response_verbatim_witness:
  "fst (upload good_provider (example_request ''photo.JPG'')) =
     (PDict [(''success'', PBool True),
             (''url'', PStr ''https://res.example/capturas/abc.jpg''),
             (''public_id'', PStr ''capturas/abc''),
             (''created_at'', PStr ''2024-05-01T10:00:00Z'')], 200)"
proof -
  have f: "[''file'' \<mapsto> \<lparr>filename = ''photo.JPG'', stream = ''bytes''\<rparr>] ''file''
             = Some \<lparr>filename = ''photo.JPG'', stream = ''bytes''\<rparr>"
    by simp
  have n: "filename \<lparr>filename = ''photo.JPG'', stream = ''bytes''\<rparr> = ''photo'' @ CHR ''.'' # ''JPG''"
    by simp
  have d: "CHR ''.'' \<notin> set ''JPG''"
    by simp
  have l: "lower ''JPG'' \<in> ALLOWED_EXTENSIONS"
    by (simp add: lower_def lower_char_def ALLOWED_EXTENSIONS_def)
  have r: "uploader_upload good_provider (upload_call \<lparr>filename = ''photo.JPG'', stream = ''bytes''\<rparr>)
             = Inr [(''public_id'', PStr ''capturas/abc''),
                    (''secure_url'', PStr ''https://res.example/capturas/abc.jpg''),
                    (''created_at'', PStr ''2024-05-01T10:00:00Z''),
                    (''bytes'', PInt 5)]"
    by (simp add: good_provider_def)
  show ?thesis
    by (rule upload_success_response_verbatim [OF files_example_request f n d l r]) simp_all
qed

text \<open>
  Claim C6. On a valid upload for which the provider's upload call raises an exception,
  the handler answers 500 with a body holding the exception's string under \<^verbatim>\<open>error\<close> and
  nothing else. The provider is called with the file that \<^verbatim>\<open>request.files\<close> holds under
  \<^verbatim>\<open>file\<close>.
\<close>

theorem upload_provider_exception_500:
  assumes "files req = Inr fs"
    and "fs ''file'' = Some f"
    and "filename f = pre @ CHR ''.'' # ext"
    and "CHR ''.'' \<notin> set ext"
    and "lower ext \<in> ALLOWED_EXTENSIONS"
    and "uploader_upload P (upload_call f) = Inl e"
  shows "fst (upload P req) = (PDict [(''error'', PStr (str_exn e))], 500)"
  unfolding upload_def upload_try_valid [OF assms(1-5)]
  using assms(6) by (simp add: error_body_def)

theorem upload_provider_exception_500_witness:
  "fst (upload failing_provider (example_request ''photo.JPG'')) =
     (PDict [(''error'', PStr ''Invalid api_key'')], 500)"
proof -
  have f: "[''file'' \<mapsto> \<lparr>filename = ''photo.JPG'', stream = ''bytes''\<rparr>] ''file''
             = Some \<lparr>filename = ''photo.JPG'', stream = ''bytes''\<rparr>"
    by simp
  have n: "filename \<lparr>filename = ''photo.JPG'', stream = ''bytes''\<rparr> = ''photo'' @ CHR ''.'' # ''JPG''"
    by simp
  have d: "CHR ''.'' \<notin> set ''JPG''"
    by simp
  have l: "lower ''JPG'' \<in> ALLOWED_EXTENSIONS"
    by (simp add: lower_def lower_char_def ALLOWED_EXTENSIONS_def)
  have r: "uploader_upload failing_provider (upload_call \<lparr>filename = ''photo.JPG'', stream = ''bytes''\<rparr>)
             = Inl (Error ''Invalid api_key'')"
    by (simp add: failing_provider_def)
  from upload_provider_exception_500 [OF files_example_request f n d l r] show ?thesis
    by simp
qed

text \<open>
  Claim C8 fails on the code. The program registers a handler that answers 413, but an
  upload in a body one byte over the 16 MiB limit is answered by the upload handler itself:
  reading \<^verbatim>\<open>request.files\<close> raises inside its \<^verbatim>\<open>try\<close>, and its \<^verbatim>\<open>except\<close> answers 500 with
  the exception's string, which is not the registered 413 response.
\<close>

theorem upload_oversized_body_answers_500:
  "MAX_CONTENT_LENGTH = 16777216
   \<and> content_length (oversized_request ''photo.JPG'') = 16777217
   \<and> fst (upload good_provider (oversized_request ''photo.JPG''))
       = (PDict [(''error'', PStr ''413 Request Entity Too Large: The data value transmitted exceeds the capacity limit.'')], 500)
   \<and> snd request_entity_too_large = 413
   \<and> fst (upload good_provider (oversized_request ''photo.JPG'')) \<noteq> request_entity_too_large"
proof -
  have m: "MAX_CONTENT_LENGTH = 16777216"
    by (simp add: MAX_CONTENT_LENGTH_def)
  have c: "content_length (oversized_request ''photo.JPG'') = 16777217"
    by (simp add: oversized_request_def)
  have u: "fst (upload good_provider (oversized_request ''photo.JPG''))
       = (PDict [(''error'', PStr ''413 Request Entity Too Large: The data value transmitted exceeds the capacity limit.'')], 500)"
    by (simp add: upload_over_limit [OF oversized_request_over_limit] error_body_def)
  have h: "snd request_entity_too_large = 413"
    by (simp add: request_entity_too_large_def)
  have d: "fst (upload good_provider (oversized_request ''photo.JPG'')) \<noteq> request_entity_too_large"
    by (simp add: u request_entity_too_large_def)
  from m c u h d show ?thesis
    by (intro conjI)
qed

section \<open>Properties of the delete handler\<close>

text \<open>
  Claim C5. The delete handler answers 200 with \<^verbatim>\<open>success\<close> true and a message when the
  provider's response has \<^verbatim>\<open>result\<close> equal to \<^verbatim>\<open>ok\<close>, 400 with an \<^verbatim>\<open>error\<close> string when the
  response has any other \<^verbatim>\<open>result\<close> or none, and 500 with the exception's string when
  the provider call raises.
\<close>

theorem delete_image_status_mapping:
  "fst (delete_image P public_id) =
     (case uploader_destroy P public_id of
        Inl e \<Rightarrow> (PDict [(''error'', PStr (str_exn e))], 500)
      | Inr result \<Rightarrow>
          if map_of result ''result'' = Some (PStr ''ok'')
          then (PDict [(''success'', PBool True), (''message'', PStr ''Imagen eliminada'')], 200)
          else (PDict [(''error'', PStr ''No se pudo eliminar la imagen'')], 400))"
  by (simp add: delete_image_def delete_image_try_def dict_get_def error_body_def
           split: sum.split option.split)

theorem delete_image_status_mapping_witness:
  "fst (delete_image good_provider ''capturas/xyz123'')
     = (PDict [(''error'', PStr ''No se pudo eliminar la imagen'')], 400)
   \<and> fst (delete_image good_provider ''capturas/abc'')
     = (PDict [(''success'', PBool True), (''message'', PStr ''Imagen eliminada'')], 200)
   \<and> fst (delete_image failing_provider ''capturas/abc'')
     = (PDict [(''error'', PStr ''Connection refused'')], 500)"
  using delete_image_status_mapping [of good_provider "''capturas/xyz123''"]
    delete_image_status_mapping [of good_provider "''capturas/abc''"]
    delete_image_status_mapping [of failing_provider "''capturas/abc''"]
  by (simp add: good_provider_def failing_provider_def)

section \<open>Properties of the list handler\<close>

lemma image_summary_dict:
  assumes "map_of d ''secure_url'' = Some u" and "map_of d ''public_id'' = Some p"
  shows "image_summary (PDict d) =
           Inr (PDict [(''url'', u), (''public_id'', p),
                       (''created_at'', case map_of d ''created_at'' of None \<Rightarrow> PStr [] | Some v \<Rightarrow> v),
                       (''format'', case map_of d ''format'' of None \<Rightarrow> PStr [] | Some v \<Rightarrow> v)])"
  using assms by (simp add: image_summary_def dict_getitem_def dict_get_def)

text \<open>A resource without one of the two subscripted keys raises, whatever else it holds.\<close>

lemma image_summary_missing_key:
  assumes "map_of d ''secure_url'' = None \<or> map_of d ''public_id'' = None"
  shows "\<exists>e. image_summary (PDict d) = Inl e"
  using assms by (auto simp add: image_summary_def dict_getitem_def split: option.split)

lemma image_summaries_length:
  "image_summaries rs = Inr images \<Longrightarrow> length images = length rs"
  by (induction rs arbitrary: images) (auto split: sum.splits)

lemma image_summaries_dicts:
  assumes "list_all (\<lambda>d. map_of d ''secure_url'' \<noteq> None \<and> map_of d ''public_id'' \<noteq> None) ds"
  shows "image_summaries (map PDict ds) =
           Inr (map (\<lambda>d. PDict [(''url'', the (map_of d ''secure_url'')),
                                  (''public_id'', the (map_of d ''public_id'')),
                                  (''created_at'', case map_of d ''created_at'' of None \<Rightarrow> PStr [] | Some v \<Rightarrow> v),
                                  (''format'', case map_of d ''format'' of None \<Rightarrow> PStr [] | Some v \<Rightarrow> v)]) ds)"
  using assms
proof (induction ds)
  case Nil
  show ?case by simp
next
  case (Cons d ds)
  from Cons.prems obtain u p
    where "map_of d ''secure_url'' = Some u" and "map_of d ''public_id'' = Some p"
    by auto
  moreover from Cons.prems have "list_all (\<lambda>d. map_of d ''secure_url'' \<noteq> None \<and> map_of d ''public_id'' \<noteq> None) ds"
    by simp
  ultimately show ?case
    by (simp add: image_summary_dict Cons.IH)
qed

text \<open>One failing element abandons the whole comprehension.\<close>

lemma image_summaries_abort:
  assumes "res \<in> set rs" and "image_summary res = Inl e"
  shows "\<exists>e'. image_summaries rs = Inl e'"
  using assms by (induction rs) (auto split: sum.split)

text \<open>The handler's answer once the provider has returned a list of resources.\<close>

lemma list_images_listing:
  assumes "api_resources P resources_call = Inr resources"
    and "map_of resources ''resources'' = Some (PList rs)"
  shows "fst (list_images P) =
     (case image_summaries rs of
        Inl e \<Rightarrow> (PDict [(''error'', PStr (str_exn e))], 500)
      | Inr images \<Rightarrow>
          (PDict [(''success'', PBool True), (''images'', PList images),
                  (''total'', PInt (int (length images)))], 200))"
  using assms
  by (simp add: list_images_def list_images_try_def dict_getitem_def error_body_def
           split: sum.split)

text \<open>
  Whatever the provider does, the handler answers either a listing whose \<^verbatim>\<open>total\<close> is the
  length of \<^verbatim>\<open>images\<close>, with status 200, or an \<^verbatim>\<open>error\<close> string with status 500.
\<close>

lemma list_images_listing_or_error:
  "(\<exists>images. fst (list_images P) =
       (PDict [(''success'', PBool True), (''images'', PList images),
               (''total'', PInt (int (length images)))], 200))
   \<or> (\<exists>msg. fst (list_images P) = (PDict [(''error'', PStr msg)], 500))"
  by (simp add: list_images_def list_images_try_def error_body_def split: sum.split)

text \<open>
  Claim C4. When the provider's listing call returns a response whose \<^verbatim>\<open>resources\<close> are
  resources carrying \<^verbatim>\<open>secure_url\<close> and \<^verbatim>\<open>public_id\<close>, the list handler answers 200 with
  \<^verbatim>\<open>success\<close> true, an \<^verbatim>\<open>images\<close> array and \<^verbatim>\<open>total\<close> equal to the length of that array;
  the array holds one entry per resource, in order, each the summary of its resource:
  \<^verbatim>\<open>url\<close>, \<^verbatim>\<open>public_id\<close>, \<^verbatim>\<open>created_at\<close> and \<^verbatim>\<open>format\<close>.
\<close>

theorem list_images_total_is_length:
  assumes "api_resources P resources_call = Inr resources"
    and "map_of resources ''resources'' = Some (PList (map PDict ds))"
    and "list_all (\<lambda>d. map_of d ''secure_url'' \<noteq> None \<and> map_of d ''public_id'' \<noteq> None) ds"
  shows "\<exists>images. fst (list_images P) =
            (PDict [(''success'', PBool True), (''images'', PList images),
                    (''total'', PInt (int (length images)))], 200)
          \<and> length images = length ds
          \<and> list_all2 (\<lambda>d image. image = PDict
                 [(''url'', the (map_of d ''secure_url'')),
                  (''public_id'', the (map_of d ''public_id'')),
                  (''created_at'', case map_of d ''created_at'' of None \<Rightarrow> PStr [] | Some v \<Rightarrow> v),
                  (''format'', case map_of d ''format'' of None \<Rightarrow> PStr [] | Some v \<Rightarrow> v)])
               ds images"
  by (simp add: list_images_listing [OF assms(1,2)] image_summaries_dicts [OF assms(3)]
        list_all2_map2 list_all2_same)

theorem list_images_total_is_length_witness:
  "\<exists>images. fst (list_images good_provider) =
      (PDict [(''success'', PBool True), (''images'', PList images),
              (''total'', PInt (int (length images)))], 200)
    \<and> length images = 2
    \<and> images =
        [PDict [(''url'', PStr ''https://res.example/capturas/abc.jpg''),
                (''public_id'', PStr ''capturas/abc''),
                (''created_at'', PStr ''2024-05-01T10:00:00Z''),
                (''format'', PStr ''jpg'')],
         PDict [(''url'', PStr ''https://res.example/capturas/def.png''),
                (''public_id'', PStr ''capturas/def''),
                (''created_at'', PStr []),
                (''format'', PStr [])]]"
proof -
  let ?ds = "[[(''public_id'', PStr ''capturas/abc''),
               (''secure_url'', PStr ''https://res.example/capturas/abc.jpg''),
               (''created_at'', PStr ''2024-05-01T10:00:00Z''),
               (''format'', PStr ''jpg'')],
              [(''public_id'', PStr ''capturas/def''),
               (''secure_url'', PStr ''https://res.example/capturas/def.png'')]]"
  have r: "api_resources good_provider resources_call = Inr [(''resources'', PList (map PDict ?ds))]"
    by (simp add: good_provider_def)
  have m: "map_of [(''resources'', PList (map PDict ?ds))] ''resources'' = Some (PList (map PDict ?ds))"
    by simp
  have w: "list_all (\<lambda>d. map_of d ''secure_url'' \<noteq> None \<and> map_of d ''public_id'' \<noteq> None) ?ds"
    by simp
  from list_images_total_is_length [OF r m w] show ?thesis
    by (auto simp add: numeral_2_eq_2 list_all2_Cons1)
qed

text \<open>
  Claim C7. Each resource of the listing is projected into a summary whose \<^verbatim>\<open>url\<close> and
  \<^verbatim>\<open>public_id\<close> are the resource's \<^verbatim>\<open>secure_url\<close> and \<^verbatim>\<open>public_id\<close>, and whose
  \<^verbatim>\<open>created_at\<close> and \<^verbatim>\<open>format\<close> are the resource's, or the empty string when the resource
  has none.
\<close>

theorem list_images_summary_defaults:
  assumes "api_resources P resources_call = Inr resources"
    and "map_of resources ''resources'' = Some (PList (map PDict ds))"
    and "list_all (\<lambda>d. map_of d ''secure_url'' \<noteq> None \<and> map_of d ''public_id'' \<noteq> None) ds"
  shows "fst (list_images P) =
     (PDict [(''success'', PBool True),
             (''images'', PList (map (\<lambda>d. PDict
                 [(''url'', the (map_of d ''secure_url'')),
                  (''public_id'', the (map_of d ''public_id'')),
                  (''created_at'', case map_of d ''created_at'' of None \<Rightarrow> PStr [] | Some v \<Rightarrow> v),
                  (''format'', case map_of d ''format'' of None \<Rightarrow> PStr [] | Some v \<Rightarrow> v)]) ds)),
             (''total'', PInt (int (length ds)))], 200)"
  by (simp add: list_images_listing [OF assms(1,2)] image_summaries_dicts [OF assms(3)])

theorem list_images_summary_defaults_witness:
  "fst (list_images good_provider) =
     (PDict [(''success'', PBool True),
             (''images'', PList
                [PDict [(''url'', PStr ''https://res.example/capturas/abc.jpg''),
                        (''public_id'', PStr ''capturas/abc''),
                        (''created_at'', PStr ''2024-05-01T10:00:00Z''),
                        (''format'', PStr ''jpg'')],
                 PDict [(''url'', PStr ''https://res.example/capturas/def.png''),
                        (''public_id'', PStr ''capturas/def''),
                        (''created_at'', PStr []),
                        (''format'', PStr [])]]),
             (''total'', PInt 2)], 200)"
proof -
  let ?ds = "[[(''public_id'', PStr ''capturas/abc''),
               (''secure_url'', PStr ''https://res.example/capturas/abc.jpg''),
               (''created_at'', PStr ''2024-05-01T10:00:00Z''),
               (''format'', PStr ''jpg'')],
              [(''public_id'', PStr ''capturas/def''),
               (''secure_url'', PStr ''https://res.example/capturas/def.png'')]]"
  have r: "api_resources good_provider resources_call = Inr [(''resources'', PList (map PDict ?ds))]"
    by (simp add: good_provider_def)
  have m: "map_of [(''resources'', PList (map PDict ?ds))] ''resources'' = Some (PList (map PDict ?ds))"
    by simp
  have w: "list_all (\<lambda>d. map_of d ''secure_url'' \<noteq> None \<and> map_of d ''public_id'' \<noteq> None) ?ds"
    by simp
  from list_images_summary_defaults [OF r m w] show ?thesis
    by simp
qed

text \<open>
  Claim C10. When some resource of the provider's listing has no \<^verbatim>\<open>secure_url\<close> or no
  \<^verbatim>\<open>public_id\<close>, the list handler answers 500 with a body holding only an \<^verbatim>\<open>error\<close>
  string: no listing, not even of the resources before the faulty one.
\<close>

theorem list_images_missing_key_500:
  assumes "api_resources P resources_call = Inr resources"
    and "map_of resources ''resources'' = Some (PList rs)"
    and "PDict d \<in> set rs"
    and "map_of d ''secure_url'' = None \<or> map_of d ''public_id'' = None"
  shows "\<exists>msg. fst (list_images P) = (PDict [(''error'', PStr msg)], 500)"
proof -
  from image_summary_missing_key [OF assms(4)] obtain e
    where "image_summary (PDict d) = Inl e" ..
  from image_summaries_abort [OF assms(3) this] obtain e'
    where "image_summaries rs = Inl e'" ..
  then show ?thesis
    by (simp add: list_images_listing [OF assms(1,2)])
qed

theorem list_images_missing_key_500_witness:
  "\<exists>msg. fst (list_images failing_provider) = (PDict [(''error'', PStr msg)], 500)"
proof -
  let ?rs = "[PDict [(''public_id'', PStr ''capturas/abc''),
                     (''secure_url'', PStr ''https://res.example/capturas/abc.jpg'')],
              PDict [(''public_id'', PStr ''capturas/def'')]]"
  have r: "api_resources failing_provider resources_call = Inr [(''resources'', PList ?rs)]"
    by (simp add: failing_provider_def)
  have m: "map_of [(''resources'', PList ?rs)] ''resources'' = Some (PList ?rs)"
    by simp
  have i: "PDict [(''public_id'', PStr ''capturas/def'')] \<in> set ?rs"
    by simp
  have k: "map_of [(''public_id'', PStr ''capturas/def'')] ''secure_url'' = None
         \<or> map_of [(''public_id'', PStr ''capturas/def'')] ''public_id'' = None"
    by simp
  show ?thesis
    by (rule list_images_missing_key_500 [OF r m i k])
qed

section \<open>The configured limit and the error handlers\<close>

lemma MAX_CONTENT_LENGTH_bytes: "MAX_CONTENT_LENGTH = 16777216"
  by (simp add: MAX_CONTENT_LENGTH_def)

lemma request_entity_too_large_response:
  "snd request_entity_too_large = 413 \<and> (\<exists>msg. fst request_entity_too_large = PDict [(''error'', PStr msg)])"
  by (simp add: request_entity_too_large_def error_body_def)

end
